theory Spec2Isabelle
  imports Main "HOL-Library.Word"
begin

section \<open>Machine types of the Go source\<close>

text \<open>
  \<^verbatim>\<open>time.Duration\<close> is an \<^verbatim>\<open>int64\<close> count of nanoseconds, and the attempt
  counter of the retry loop is an \<^verbatim>\<open>int64\<close> too: both are 64-bit words, compared
  as two's complement numbers (\<open><s\<close>, \<open>\<le>s\<close>).
\<close>

type_synonym int64 = "64 word"
type_synonym Duration = "64 word"

definition Millisecond :: Duration where
  "Millisecond = 1000000"

definition Second :: Duration where
  "Second = 1000000000"

subsection \<open>float64\<close>

text \<open>
  A Go \<^verbatim>\<open>float64\<close> is an IEEE-754 binary64 number. It is modelled by its bit
  pattern (what \<^verbatim>\<open>math.Float64bits\<close> returns): bit 63 is the sign, bits 62..52 the
  biased exponent, bits 51..0 the fraction. Exponent 2047 holds the infinities
  (fraction 0) and the NaNs (fraction not 0); exponent 0 holds the zeros and the
  subnormal numbers. A finite pattern denotes
  \<open>(-1) ^ sign * f64_mant * 2 ^ f64_expo\<close>.
\<close>

datatype float64 = Float64 (bits: "64 word")

definition f64_sign :: "float64 \<Rightarrow> bool" where
  "f64_sign x = (2 ^ 63 \<le> uint (bits x))"

definition f64_biased :: "float64 \<Rightarrow> int" where
  "f64_biased x = (uint (bits x) div 2 ^ 52) mod 2 ^ 11"

definition f64_frac :: "float64 \<Rightarrow> int" where
  "f64_frac x = uint (bits x) mod 2 ^ 52"

definition f64_isNaN :: "float64 \<Rightarrow> bool" where
  "f64_isNaN x = (f64_biased x = 2047 \<and> f64_frac x \<noteq> 0)"

definition f64_isInf :: "float64 \<Rightarrow> bool" where
  "f64_isInf x = (f64_biased x = 2047 \<and> f64_frac x = 0)"

definition f64_isZero :: "float64 \<Rightarrow> bool" where
  "f64_isZero x = (f64_biased x = 0 \<and> f64_frac x = 0)"

definition f64_mant :: "float64 \<Rightarrow> int" where
  "f64_mant x = (if f64_biased x = 0 then f64_frac x else 2 ^ 52 + f64_frac x)"

definition f64_expo :: "float64 \<Rightarrow> int" where
  "f64_expo x = (if f64_biased x = 0 then - 1074 else f64_biased x - 1075)"

definition f64_pack :: "bool \<Rightarrow> int \<Rightarrow> float64" where
  "f64_pack s n = Float64 (word_of_int (if s then 2 ^ 63 + n else n))"

definition f64_zero :: "bool \<Rightarrow> float64" where
  "f64_zero s = f64_pack s 0"

definition f64_inf :: "bool \<Rightarrow> float64" where
  "f64_inf s = f64_pack s (2047 * 2 ^ 52)"

definition f64_NaN :: float64 where
  "f64_NaN = f64_pack False (2047 * 2 ^ 52 + 2 ^ 51)"

text \<open>The constants of the source: \<^verbatim>\<open>float64(2.0)\<close>, \<^verbatim>\<open>float64(1.0)\<close> and the literal 0.\<close>

definition f64_two :: float64 where
  "f64_two = Float64 0x4000000000000000"

definition f64_one :: float64 where
  "f64_one = Float64 0x3FF0000000000000"

text \<open>
  The comparisons \<^verbatim>\<open><=\<close> and \<^verbatim>\<open><\<close>: false as soon as one side is a NaN;
  otherwise binary64 patterns are ordered as sign-and-magnitude integers, the two
  zeros being equal.
\<close>

definition f64_key :: "float64 \<Rightarrow> int" where
  "f64_key x = (if f64_sign x then - (uint (bits x) mod 2 ^ 63)
                else uint (bits x) mod 2 ^ 63)"

definition f64_le :: "float64 \<Rightarrow> float64 \<Rightarrow> bool" where
  "f64_le a b = (\<not> f64_isNaN a \<and> \<not> f64_isNaN b \<and> f64_key a \<le> f64_key b)"

definition f64_less :: "float64 \<Rightarrow> float64 \<Rightarrow> bool" where
  "f64_less a b = (\<not> f64_isNaN a \<and> \<not> f64_isNaN b \<and> f64_key a < f64_key b)"

text \<open>
  Rounding to nearest, ties to even (the only rounding Go uses): \<open>f64_round s m e\<close> is
  the binary64 number nearest to \<open>(-1) ^ s * m * 2 ^ e\<close> for \<open>m > 0\<close>. \<open>q\<close> is the
  exponent of the last place kept (at least \<open>-1074\<close>, where the subnormals live),
  \<open>M\<close> the rounded significand in units of \<open>2 ^ q\<close>. Adding \<open>M\<close> onto the exponent
  field carries a significand of \<open>2 ^ 53\<close> into the next exponent, and a result at
  or above exponent 2047 overflows to infinity.
\<close>

function bitlen :: "int \<Rightarrow> int" where
  "bitlen n = (if n \<le> 0 then 0 else 1 + bitlen (n div 2))"
  by pat_completeness auto
termination
  by (relation "measure nat") auto

declare bitlen.simps [simp del]

definition f64_round :: "bool \<Rightarrow> int \<Rightarrow> int \<Rightarrow> float64" where
  "f64_round s m e =
     (let q = max (bitlen m + e - 53) (- 1074);
          M = (if q \<le> e then m * 2 ^ nat (e - q)
               else let sh = nat (q - e);
                        M0 = m div 2 ^ sh;
                        r = m mod 2 ^ sh;
                        half = 2 ^ (sh - 1)
                    in if half < r \<or> (r = half \<and> odd M0) then M0 + 1 else M0);
          n = (q + 1074) * 2 ^ 52 + M
      in if 2047 * 2 ^ 52 \<le> n then f64_inf s else f64_pack s n)"

text \<open>The conversion \<^verbatim>\<open>float64(x)\<close> of an \<^verbatim>\<open>int64\<close>.\<close>

definition f64_of_int64 :: "int64 \<Rightarrow> float64" where
  "f64_of_int64 x =
     (if x = 0 then f64_zero False else f64_round (sint x < 0) \<bar>sint x\<bar> 0)"

text \<open>
  The product \<^verbatim>\<open>a * b\<close>. Which NaN an invalid product yields depends on the
  platform; the model returns the default quiet NaN.
\<close>

definition f64_mul :: "float64 \<Rightarrow> float64 \<Rightarrow> float64" where
  "f64_mul a b =
     (if f64_isNaN a \<or> f64_isNaN b then f64_NaN
      else if f64_isInf a \<or> f64_isInf b then
        (if f64_isZero a \<or> f64_isZero b then f64_NaN
         else f64_inf (f64_sign a \<noteq> f64_sign b))
      else if f64_isZero a \<or> f64_isZero b then f64_zero (f64_sign a \<noteq> f64_sign b)
      else f64_round (f64_sign a \<noteq> f64_sign b) (f64_mant a * f64_mant b)
             (f64_expo a + f64_expo b))"

text \<open>
  The conversion \<^verbatim>\<open>time.Duration(f)\<close> of a \<^verbatim>\<open>float64\<close> to \<^verbatim>\<open>int64\<close> drops the
  fraction (truncation towards zero). When the value does not fit (a NaN, an
  infinity, a magnitude beyond the \<^verbatim>\<open>int64\<close> range) the Go specification leaves
  the result to the implementation: it is then \<open>undef f\<close>, a parameter of the model.
\<close>

definition f64_trunc :: "float64 \<Rightarrow> int" where
  "f64_trunc f =
     (let mag = (if 0 \<le> f64_expo f then f64_mant f * 2 ^ nat (f64_expo f)
                 else f64_mant f div 2 ^ nat (- f64_expo f))
      in if f64_sign f then - mag else mag)"

definition f64_to_int64 :: "(float64 \<Rightarrow> int64) \<Rightarrow> float64 \<Rightarrow> int64" where
  "f64_to_int64 undef f =
     (if f64_isNaN f \<or> f64_isInf f then undef f
      else if - (2 ^ 63) \<le> f64_trunc f \<and> f64_trunc f < 2 ^ 63 then word_of_int (f64_trunc f)
      else undef f)"

section \<open>Policies (policy.go)\<close>

definition defaultInitialInterval :: Duration where
  "defaultInitialInterval = Second"

definition defaultMaxInterval :: Duration where
  "defaultMaxInterval = 30 * Second"

definition defaultMaxAttempts :: int64 where
  "defaultMaxAttempts = 3"

definition defaultBackOffCoefficient :: float64 where
  "defaultBackOffCoefficient = f64_two"

definition fixedDelayBackOffCoefficient :: float64 where
  "fixedDelayBackOffCoefficient = f64_one"

definition unlimitedMaxInterval :: Duration where
  "unlimitedMaxInterval = - 1"

definition undefinedMaxAttempts :: int64 where
  "undefinedMaxAttempts = - 1"

record BackOffPolicy =
  initialInterval :: Duration
  maxInterval :: Duration
  maxAttempts :: int64
  backOffCoefficient :: float64

record FixedDelayPolicy =
  interval :: Duration
  fd_maxAttempts :: int64

text \<open>
  The interface \<^verbatim>\<open>policy\<close> has the two struct types as its implementations; the
  four getters dispatch on the variant.
\<close>

datatype policy = BackOff BackOffPolicy | FixedDelay FixedDelayPolicy

fun getInitialInterval :: "policy \<Rightarrow> Duration" where
  "getInitialInterval (BackOff p) = initialInterval p"
| "getInitialInterval (FixedDelay p) = interval p"

fun getMaxInterval :: "policy \<Rightarrow> Duration" where
  "getMaxInterval (BackOff p) = maxInterval p"
| "getMaxInterval (FixedDelay p) = interval p"

fun getMaxAttempts :: "policy \<Rightarrow> int64" where
  "getMaxAttempts (BackOff p) = maxAttempts p"
| "getMaxAttempts (FixedDelay p) = fd_maxAttempts p"

fun getBackOffCoefficient :: "policy \<Rightarrow> float64" where
  "getBackOffCoefficient (BackOff p) = backOffCoefficient p"
| "getBackOffCoefficient (FixedDelay p) = fixedDelayBackOffCoefficient"

section \<open>Builders (policy\_builder.go)\<close>

record BackOffPolicyBuilder =
  b_initialInterval :: Duration
  b_maxInterval :: Duration
  b_maxAttempts :: int64
  b_backOffCoefficient :: float64

record FixedDelayPolicyBuilder =
  b_interval :: Duration
  b_fd_maxAttempts :: int64

text \<open>\<^verbatim>\<open>Policy().BackOff()\<close> and \<^verbatim>\<open>Policy().FixedDelay()\<close>: the zero-valued builders.\<close>

definition newBackOff :: BackOffPolicyBuilder where
  "newBackOff = \<lparr>b_initialInterval = 0, b_maxInterval = 0, b_maxAttempts = 0,
                 b_backOffCoefficient = f64_zero False\<rparr>"

definition newFixedDelay :: FixedDelayPolicyBuilder where
  "newFixedDelay = \<lparr>b_interval = 0, b_fd_maxAttempts = 0\<rparr>"

text \<open>
  Every \<^verbatim>\<open>With...\<close> method has a value receiver and returns a freshly built
  struct, copied field by field as in the source.
\<close>

definition WithInitialInterval :: "Duration \<Rightarrow> BackOffPolicyBuilder \<Rightarrow> BackOffPolicyBuilder" where
  "WithInitialInterval d b =
     \<lparr>b_initialInterval = d, b_maxInterval = b_maxInterval b,
      b_maxAttempts = b_maxAttempts b, b_backOffCoefficient = b_backOffCoefficient b\<rparr>"

definition WithMaxInterval :: "Duration \<Rightarrow> BackOffPolicyBuilder \<Rightarrow> BackOffPolicyBuilder" where
  "WithMaxInterval d b =
     \<lparr>b_initialInterval = b_initialInterval b, b_maxInterval = d,
      b_maxAttempts = b_maxAttempts b, b_backOffCoefficient = b_backOffCoefficient b\<rparr>"

definition WithMaxIntervalUnlimited :: "BackOffPolicyBuilder \<Rightarrow> BackOffPolicyBuilder" where
  "WithMaxIntervalUnlimited b =
     \<lparr>b_initialInterval = b_initialInterval b, b_maxInterval = unlimitedMaxInterval,
      b_maxAttempts = b_maxAttempts b, b_backOffCoefficient = b_backOffCoefficient b\<rparr>"

definition WithMaxAttempts :: "int64 \<Rightarrow> BackOffPolicyBuilder \<Rightarrow> BackOffPolicyBuilder" where
  "WithMaxAttempts n b =
     \<lparr>b_initialInterval = b_initialInterval b, b_maxInterval = b_maxInterval b,
      b_maxAttempts = n, b_backOffCoefficient = b_backOffCoefficient b\<rparr>"

definition WithMaxAttemptsIndefinite :: "BackOffPolicyBuilder \<Rightarrow> BackOffPolicyBuilder" where
  "WithMaxAttemptsIndefinite b =
     \<lparr>b_initialInterval = b_initialInterval b, b_maxInterval = b_maxInterval b,
      b_maxAttempts = undefinedMaxAttempts, b_backOffCoefficient = b_backOffCoefficient b\<rparr>"

definition WithBackOffCoefficient :: "float64 \<Rightarrow> BackOffPolicyBuilder \<Rightarrow> BackOffPolicyBuilder" where
  "WithBackOffCoefficient c b =
     \<lparr>b_initialInterval = b_initialInterval b, b_maxInterval = b_maxInterval b,
      b_maxAttempts = b_maxAttempts b, b_backOffCoefficient = c\<rparr>"

definition resolveInitialInterval :: "BackOffPolicyBuilder \<Rightarrow> Duration" where
  "resolveInitialInterval b =
     (if b_initialInterval b \<le>s 0 then defaultInitialInterval else b_initialInterval b)"

definition resolveMaxInterval :: "BackOffPolicyBuilder \<Rightarrow> Duration" where
  "resolveMaxInterval b =
     (if b_maxInterval b <s 0 then unlimitedMaxInterval
      else if b_maxInterval b = 0 then defaultMaxInterval
      else b_maxInterval b)"

definition resolveMaxAttempts :: "BackOffPolicyBuilder \<Rightarrow> int64" where
  "resolveMaxAttempts b =
     (if b_maxAttempts b <s 0 then undefinedMaxAttempts
      else if b_maxAttempts b = 0 then defaultMaxAttempts
      else b_maxAttempts b)"

definition resolveBackOffCoefficient :: "BackOffPolicyBuilder \<Rightarrow> float64" where
  "resolveBackOffCoefficient b =
     (if f64_le (b_backOffCoefficient b) (f64_zero False) then defaultBackOffCoefficient
      else b_backOffCoefficient b)"

definition Build :: "BackOffPolicyBuilder \<Rightarrow> BackOffPolicy" where
  "Build b =
     \<lparr>initialInterval = resolveInitialInterval b, maxInterval = resolveMaxInterval b,
      maxAttempts = resolveMaxAttempts b, backOffCoefficient = resolveBackOffCoefficient b\<rparr>"

definition WithInterval :: "Duration \<Rightarrow> FixedDelayPolicyBuilder \<Rightarrow> FixedDelayPolicyBuilder" where
  "WithInterval d b = \<lparr>b_interval = d, b_fd_maxAttempts = b_fd_maxAttempts b\<rparr>"

definition fd_WithMaxAttempts :: "int64 \<Rightarrow> FixedDelayPolicyBuilder \<Rightarrow> FixedDelayPolicyBuilder" where
  "fd_WithMaxAttempts n b = \<lparr>b_interval = b_interval b, b_fd_maxAttempts = n\<rparr>"

definition fd_WithMaxAttemptsIndefinite :: "FixedDelayPolicyBuilder \<Rightarrow> FixedDelayPolicyBuilder" where
  "fd_WithMaxAttemptsIndefinite b =
     \<lparr>b_interval = b_interval b, b_fd_maxAttempts = undefinedMaxAttempts\<rparr>"

definition resolveInterval :: "FixedDelayPolicyBuilder \<Rightarrow> Duration" where
  "resolveInterval b =
     (if b_interval b \<le>s 0 then defaultInitialInterval else b_interval b)"

definition fd_resolveMaxAttempts :: "FixedDelayPolicyBuilder \<Rightarrow> int64" where
  "fd_resolveMaxAttempts b =
     (if b_fd_maxAttempts b <s 0 then undefinedMaxAttempts
      else if b_fd_maxAttempts b = 0 then defaultMaxAttempts
      else b_fd_maxAttempts b)"

definition fd_Build :: "FixedDelayPolicyBuilder \<Rightarrow> FixedDelayPolicy" where
  "fd_Build b = \<lparr>interval = resolveInterval b, fd_maxAttempts = fd_resolveMaxAttempts b\<rparr>"

section \<open>The retry executor (retry.go)\<close>

definition nextInterval :: "(float64 \<Rightarrow> int64) \<Rightarrow> Duration \<Rightarrow> float64 \<Rightarrow> Duration" where
  "nextInterval undef current coefficient =
     f64_to_int64 undef (f64_mul (f64_of_int64 current) coefficient)"

definition calcNextInterval ::
  "(float64 \<Rightarrow> int64) \<Rightarrow> Duration \<Rightarrow> Duration \<Rightarrow> float64 \<Rightarrow> Duration" where
  "calcNextInterval undef current maxInt coefficient =
     (if unlimitedMaxInterval = maxInt then nextInterval undef current coefficient
      else if current = maxInt then current
      else let next = nextInterval undef current coefficient
           in if maxInt <s next then maxInt else next)"

text \<open>
  The collaborators of \<^verbatim>\<open>Supply\<close> act on the world outside the loop (the clock,
  the context, whatever the operation touches), a state \<open>'w\<close> that is passed
  along:
  \<^item> \<open>ctx w\<close> is the poll \<^verbatim>\<open>select { case <-ctx.Done(): ... default: }\<close>: whether
    the context is done at this moment, and the world after the poll;
  \<^item> \<open>slp d w\<close> is \<^verbatim>\<open>slp.Sleep(d)\<close>;
  \<^item> \<open>supply w\<close> is one call of the operation, returning its value, its error
    (\<open>None\<close> for \<^verbatim>\<open>nil\<close>) and the world after the call.
  Every call of the operation and of the sleeper is appended to a log, so that
  claims about the calls made can be stated.
\<close>

datatype ('t, 'e) event = Attempt 't "'e option" | Sleep Duration

text \<open>
  The \<^verbatim>\<open>error\<close> returned by \<^verbatim>\<open>Supply\<close> is either an error of the operation,
  returned as it is, or a \<^verbatim>\<open>DeadlineExceededError[T]\<close> struct.
\<close>

datatype ('t, 'e) error = OpError 'e | DeadlineExceededError (Result: 't) (Err: "'e option")

text \<open>
  The loop may run forever, so it runs on fuel: one unit for each evaluation of the
  loop condition. \<open>OutOfFuel\<close> carries the world and the log reached so far.
\<close>

datatype ('r, 'w, 'ev) outcome = Returned 'r 'w "'ev list" | OutOfFuel 'w "'ev list"

fun Supply_loop ::
  "nat \<Rightarrow> (float64 \<Rightarrow> int64) \<Rightarrow> ('w \<Rightarrow> bool \<times> 'w) \<Rightarrow> (Duration \<Rightarrow> 'w \<Rightarrow> 'w) \<Rightarrow>
   ('w \<Rightarrow> ('t \<times> 'e option) \<times> 'w) \<Rightarrow> policy \<Rightarrow>
   't \<Rightarrow> 'e option \<Rightarrow> Duration \<Rightarrow> int64 \<Rightarrow> 'w \<Rightarrow> ('t, 'e) event list \<Rightarrow>
   ('t \<times> ('t, 'e) error option, 'w, ('t, 'e) event) outcome" where
  "Supply_loop 0 undef ctx slp supply p res err nextInt i w log = OutOfFuel w log"
| "Supply_loop (Suc fuel) undef ctx slp supply p res err nextInt i w log =
     (if i = 0 \<or> i <s getMaxAttempts p then
        (case ctx w of (done, w1) \<Rightarrow>
           if done then Returned (res, Some (DeadlineExceededError res err)) w1 log
           else
             (case supply w1 of ((res', err'), w2) \<Rightarrow>
                if err' = None then Returned (res', None) w2 (log @ [Attempt res' err'])
                else
                  let currInterval = nextInt;
                      nextInt' = calcNextInterval undef nextInt (getMaxInterval p)
                                   (getBackOffCoefficient p);
                      w3 = slp currInterval w2;
                      i' = (if 0 <s getMaxAttempts p then i + 1 else i)
                  in Supply_loop fuel undef ctx slp supply p res' err' nextInt' i' w3
                       (log @ [Attempt res' err', Sleep currInterval])))
      else Returned (res, map_option OpError err) w log)"

text \<open>
  \<^verbatim>\<open>var res T\<close> starts as the zero value of \<open>T\<close>, the parameter \<open>zero\<close>;
  \<^verbatim>\<open>var err error\<close> starts as \<^verbatim>\<open>nil\<close>.
\<close>

definition Supply ::
  "nat \<Rightarrow> (float64 \<Rightarrow> int64) \<Rightarrow> 't \<Rightarrow> ('w \<Rightarrow> bool \<times> 'w) \<Rightarrow> (Duration \<Rightarrow> 'w \<Rightarrow> 'w) \<Rightarrow>
   ('w \<Rightarrow> ('t \<times> 'e option) \<times> 'w) \<Rightarrow> policy \<Rightarrow> 'w \<Rightarrow>
   ('t \<times> ('t, 'e) error option, 'w, ('t, 'e) event) outcome" where
  "Supply fuel undef zero ctx slp supply p w =
     Supply_loop fuel undef ctx slp supply p zero None (getInitialInterval p) 0 w []"

text \<open>
  \<^verbatim>\<open>Run\<close> instantiates \<open>T\<close> with \<^verbatim>\<open>any\<close>, an interface that is \<^verbatim>\<open>nil\<close> or holds
  some dynamic value; \<^verbatim>\<open>nil\<close> is its zero value.
\<close>

typedecl dynamic

datatype any = any_nil | any_of dynamic

definition runFuncToSupplyFunc :: "('w \<Rightarrow> 'e option \<times> 'w) \<Rightarrow> 'w \<Rightarrow> (any \<times> 'e option) \<times> 'w" where
  "runFuncToSupplyFunc run = (\<lambda>w. case run w of (err, w') \<Rightarrow> ((any_nil, err), w'))"

definition returnErrOnly :: "'t \<times> 'x \<Rightarrow> 'x" where
  "returnErrOnly r = (case r of (_, err) \<Rightarrow> err)"

fun on_return :: "('r \<Rightarrow> 's) \<Rightarrow> ('r, 'w, 'ev) outcome \<Rightarrow> ('s, 'w, 'ev) outcome" where
  "on_return f (Returned r w log) = Returned (f r) w log"
| "on_return f (OutOfFuel w log) = OutOfFuel w log"

definition Run ::
  "nat \<Rightarrow> (float64 \<Rightarrow> int64) \<Rightarrow> ('w \<Rightarrow> bool \<times> 'w) \<Rightarrow> (Duration \<Rightarrow> 'w \<Rightarrow> 'w) \<Rightarrow>
   ('w \<Rightarrow> 'e option \<times> 'w) \<Rightarrow> policy \<Rightarrow> 'w \<Rightarrow>
   ((any, 'e) error option, 'w, (any, 'e) event) outcome" where
  "Run fuel undef ctx slp run p w =
     on_return returnErrOnly (Supply fuel undef any_nil ctx slp (runFuncToSupplyFunc run) p w)"

subsection \<open>Reading an outcome and its log\<close>

fun log_of :: "('r, 'w, 'ev) outcome \<Rightarrow> 'ev list" where
  "log_of (Returned r w log) = log"
| "log_of (OutOfFuel w log) = log"

fun returned :: "('r, 'w, 'ev) outcome \<Rightarrow> 'r option" where
  "returned (Returned r w log) = Some r"
| "returned (OutOfFuel w log) = None"

fun sleeps :: "('t, 'e) event list \<Rightarrow> Duration list" where
  "sleeps [] = []"
| "sleeps (Sleep d # es) = d # sleeps es"
| "sleeps (Attempt r e # es) = sleeps es"

fun attempts :: "('t, 'e) event list \<Rightarrow> ('t \<times> 'e option) list" where
  "attempts [] = []"
| "attempts (Sleep d # es) = attempts es"
| "attempts (Attempt r e # es) = (r, e) # attempts es"

subsection \<open>A run, round by round\<close>

text \<open>
  A run of \<^verbatim>\<open>Supply\<close> that keeps failing is made of rounds: a poll of the
  context, one call of the operation, one sleep. \<open>run_rounds k\<close> plays \<open>k\<close> such
  rounds from a world, one after the other, with no counter, no fuel and no test: it
  returns, for each round, the value and the error the operation returned and the
  interval slept, and the world after the last sleep. The first interval is \<open>d\<close>; the
  next one is always \<^verbatim>\<open>calcNextInterval\<close> of the one before. \<open>failing_rounds k\<close> says
  that in each of these \<open>k\<close> rounds the poll finds the context not done and the
  operation returns an error. \<open>log_rounds\<close> is the log of such rounds.
\<close>

fun run_rounds ::
  "nat \<Rightarrow> (float64 \<Rightarrow> int64) \<Rightarrow> ('w \<Rightarrow> bool \<times> 'w) \<Rightarrow> (Duration \<Rightarrow> 'w \<Rightarrow> 'w) \<Rightarrow>
   ('w \<Rightarrow> ('t \<times> 'e option) \<times> 'w) \<Rightarrow> policy \<Rightarrow> Duration \<Rightarrow> 'w \<Rightarrow>
   ('t \<times> 'e option \<times> Duration) list \<times> 'w" where
  "run_rounds 0 undef ctx slp supply p d w = ([], w)"
| "run_rounds (Suc k) undef ctx slp supply p d w =
     (case ctx w of (done, w1) \<Rightarrow>
      case supply w1 of ((r, e), w2) \<Rightarrow>
      case run_rounds k undef ctx slp supply p
             (calcNextInterval undef d (getMaxInterval p) (getBackOffCoefficient p))
             (slp d w2) of
        (rs, w') \<Rightarrow> ((r, e, d) # rs, w'))"

fun failing_rounds ::
  "nat \<Rightarrow> (float64 \<Rightarrow> int64) \<Rightarrow> ('w \<Rightarrow> bool \<times> 'w) \<Rightarrow> (Duration \<Rightarrow> 'w \<Rightarrow> 'w) \<Rightarrow>
   ('w \<Rightarrow> ('t \<times> 'e option) \<times> 'w) \<Rightarrow> policy \<Rightarrow> Duration \<Rightarrow> 'w \<Rightarrow> bool" where
  "failing_rounds 0 undef ctx slp supply p d w = True"
| "failing_rounds (Suc k) undef ctx slp supply p d w =
     (case ctx w of (done, w1) \<Rightarrow>
      case supply w1 of ((r, e), w2) \<Rightarrow>
        \<not> done \<and> e \<noteq> None \<and>
        failing_rounds k undef ctx slp supply p
          (calcNextInterval undef d (getMaxInterval p) (getBackOffCoefficient p))
          (slp d w2))"

fun log_rounds :: "('t \<times> 'e option \<times> Duration) list \<Rightarrow> ('t, 'e) event list" where
  "log_rounds [] = []"
| "log_rounds ((r, e, d) # rs) = Attempt r e # Sleep d # log_rounds rs"

definition next_of :: "(float64 \<Rightarrow> int64) \<Rightarrow> policy \<Rightarrow> Duration \<Rightarrow> Duration" where
  "next_of undef p d = calcNextInterval undef d (getMaxInterval p) (getBackOffCoefficient p)"

subsection \<open>Counting the calls\<close>

text \<open>
  To count calls whatever the world is, a counter is put beside the world:
  \<open>count_calls f\<close> is \<open>f\<close> stepping the counter at each call, \<open>beside_counter f\<close>
  is \<open>f\<close> leaving the counter alone; likewise for a sleeper.
\<close>

definition count_calls :: "('w \<Rightarrow> 'a \<times> 'w) \<Rightarrow> nat \<times> 'w \<Rightarrow> 'a \<times> (nat \<times> 'w)" where
  "count_calls f = (\<lambda>(c, w). case f w of (x, w') \<Rightarrow> (x, (Suc c, w')))"

definition beside_counter :: "('w \<Rightarrow> 'a \<times> 'w) \<Rightarrow> nat \<times> 'w \<Rightarrow> 'a \<times> (nat \<times> 'w)" where
  "beside_counter f = (\<lambda>(c, w). case f w of (x, w') \<Rightarrow> (x, (c, w')))"

definition count_sleeps :: "(Duration \<Rightarrow> 'w \<Rightarrow> 'w) \<Rightarrow> Duration \<Rightarrow> nat \<times> 'w \<Rightarrow> nat \<times> 'w" where
  "count_sleeps slp d = (\<lambda>(c, w). (Suc c, slp d w))"

definition sleep_beside_counter :: "(Duration \<Rightarrow> 'w \<Rightarrow> 'w) \<Rightarrow> Duration \<Rightarrow> nat \<times> 'w \<Rightarrow> nat \<times> 'w" where
  "sleep_beside_counter slp d = (\<lambda>(c, w). (c, slp d w))"

subsection \<open>The exact product\<close>

text \<open>
  The product of an interval and a coefficient as the specification writes it,
  \<^verbatim>\<open>current * coefficient\<close>: \<open>exact_product x c\<close> is the product of the integer \<open>x\<close> and the number the
  finite \<^verbatim>\<open>float64\<close> \<open>c\<close> denotes, computed exactly and then cut to an integer
  towards zero (\<open>trunc2 A e\<close> is \<open>A * 2 ^ e\<close> cut to an integer, for \<open>A \<ge> 0\<close>).
  \<open>claimed_next\<close> is the next interval computed from that product.
\<close>

definition trunc2 :: "int \<Rightarrow> int \<Rightarrow> int" where
  "trunc2 A e = (if 0 \<le> e then A * 2 ^ nat e else A div 2 ^ nat (- e))"



subsection \<open>Builders behind references\<close>












subsection \<open>The collaborators of the test suite\<close>

text \<open>
  The tests of the repository (\<^verbatim>\<open>retry_supply_test.go\<close>) run \<^verbatim>\<open>Supply\<close> against a
  fake clock and a supplier that counts its calls, records the time of each call in
  \<^verbatim>\<open>tryTimes\<close>, fails with \<^verbatim>\<open>assert.AnError\<close> while \<^verbatim>\<open>i < k\<close> and succeeds
  afterwards. Time is counted in nanoseconds from the start of the test.
\<close>

record test_world =
  calls :: nat
  tryTimes :: "int list"
  clock :: int

datatype test_error = AnError

definition start :: test_world where
  "start = \<lparr>calls = 0, tryTimes = [], clock = 0\<rparr>"

definition supplier :: "nat \<Rightarrow> test_world \<Rightarrow> (bool \<times> test_error option) \<times> test_world" where
  "supplier k w =
     (let w' = w\<lparr>tryTimes := tryTimes w @ [clock w], calls := calls w + 1\<rparr>
      in if calls w' < k then ((False, Some AnError), w') else ((True, None), w'))"

definition failing_supplier :: "test_world \<Rightarrow> (bool \<times> test_error option) \<times> test_world" where
  "failing_supplier w =
     ((False, Some AnError), w\<lparr>tryTimes := tryTimes w @ [clock w], calls := calls w + 1\<rparr>)"

definition runner :: "nat \<Rightarrow> test_world \<Rightarrow> test_error option \<times> test_world" where
  "runner k w =
     (let w' = w\<lparr>tryTimes := tryTimes w @ [clock w], calls := calls w + 1\<rparr>
      in if calls w' < k then (Some AnError, w') else (None, w'))"

definition fake_clock_Sleep :: "Duration \<Rightarrow> test_world \<Rightarrow> test_world" where
  "fake_clock_Sleep d w = w\<lparr>clock := clock w + sint d\<rparr>"

text \<open>\<^verbatim>\<open>context.Background()\<close> is never done; a context with a deadline is done from
  the deadline on.\<close>

definition Background :: "test_world \<Rightarrow> bool \<times> test_world" where
  "Background w = (False, w)"

definition WithDeadline :: "int \<Rightarrow> test_world \<Rightarrow> bool \<times> test_world" where
  "WithDeadline t w = (t \<le> clock w, w)"

text \<open>The conversion of an out-of-range \<^verbatim>\<open>float64\<close> on amd64: the smallest \<^verbatim>\<open>int64\<close>.\<close>

definition amd64 :: "float64 \<Rightarrow> int64" where
  "amd64 f = 0x8000000000000000"

text \<open>The policies used as examples: three attempts 100ms apart, and the zero value
  of the struct \<^verbatim>\<open>BackOffPolicy\<close>, which any caller can write down without the
  builder (\<^verbatim>\<open>retry.BackOffPolicy{}\<close>).\<close>

definition three_times_100ms :: policy where
  "three_times_100ms =
     FixedDelay (fd_Build (fd_WithMaxAttempts 3 (WithInterval (100 * Millisecond) newFixedDelay)))"

definition zero_BackOffPolicy :: BackOffPolicy where
  "zero_BackOffPolicy =
     \<lparr>initialInterval = 0, maxInterval = 0, maxAttempts = 0,
      backOffCoefficient = f64_zero False\<rparr>"

text \<open>Two builders used as examples: a backoff capped at its initial interval, and one
  given a NaN (\<^verbatim>\<open>math.NaN()\<close>) as its coefficient.\<close>

definition capped_100ms :: BackOffPolicyBuilder where
  "capped_100ms = WithBackOffCoefficient f64_two (WithMaxInterval (100 * Millisecond)
     (WithInitialInterval (100 * Millisecond) newBackOff))"

definition NaN_builder :: BackOffPolicyBuilder where
  "NaN_builder = WithBackOffCoefficient f64_NaN newBackOff"

section \<open>Evaluating the model\<close>

lemmas f64_defs =
  f64_to_int64_def f64_mul_def f64_of_int64_def f64_two_def f64_one_def f64_NaN_def
  f64_isNaN_def f64_isInf_def f64_isZero_def f64_biased_def f64_frac_def f64_round_def
  f64_pack_def f64_inf_def f64_sign_def f64_mant_def f64_expo_def f64_trunc_def
  f64_zero_def f64_le_def f64_less_def f64_key_def

lemmas builder_defs =
  Build_def WithInitialInterval_def WithMaxInterval_def WithMaxIntervalUnlimited_def
  WithMaxAttempts_def WithMaxAttemptsIndefinite_def WithBackOffCoefficient_def
  newBackOff_def resolveInitialInterval_def resolveMaxInterval_def
  resolveMaxAttempts_def resolveBackOffCoefficient_def
  fd_Build_def WithInterval_def fd_WithMaxAttempts_def fd_WithMaxAttemptsIndefinite_def
  newFixedDelay_def resolveInterval_def fd_resolveMaxAttempts_def

lemmas const_defs =
  Millisecond_def Second_def defaultInitialInterval_def defaultMaxInterval_def
  defaultMaxAttempts_def defaultBackOffCoefficient_def fixedDelayBackOffCoefficient_def
  unlimitedMaxInterval_def undefinedMaxAttempts_def

lemmas test_defs =
  start_def supplier_def failing_supplier_def runner_def fake_clock_Sleep_def
  Background_def WithDeadline_def

section \<open>The next interval\<close>

lemma calcNextInterval_float_cases:
  "calcNextInterval undef current maxInt c =
     (let product = f64_to_int64 undef (f64_mul (f64_of_int64 current) c)
      in if maxInt = unlimitedMaxInterval then product
         else if current = maxInt then maxInt
         else if maxInt <s product then maxInt
         else product)"
  by (auto simp add: calcNextInterval_def nextInterval_def Let_def)

subsection \<open>When the float64 product is exact\<close>




















lemma trunc2_zero [simp]: "trunc2 0 e = 0"
  by (simp add: trunc2_def)














section \<open>Exponential progression\<close>

lemma backoff_100ms_x2_5:
  "Build (WithMaxAttempts 5 (WithBackOffCoefficient f64_two
     (WithInitialInterval (100 * Millisecond) newBackOff))) =
   \<lparr>initialInterval = 100000000, maxInterval = 30000000000, maxAttempts = 5,
    backOffCoefficient = f64_two\<rparr>"
  by (simp add: builder_defs const_defs f64_defs word_sle_eq word_sless_alt)

lemma double_100ms: "nextInterval undef 100000000 f64_two = 200000000"
  by (simp add: nextInterval_def f64_defs Let_def bitlen.simps)

lemma double_200ms: "nextInterval undef 200000000 f64_two = 400000000"
  by (simp add: nextInterval_def f64_defs Let_def bitlen.simps)

lemma double_400ms: "nextInterval undef 400000000 f64_two = 800000000"
  by (simp add: nextInterval_def f64_defs Let_def bitlen.simps)

lemma double_800ms: "nextInterval undef 800000000 f64_two = 1600000000"
  by (simp add: nextInterval_def f64_defs Let_def bitlen.simps)

text \<open>
  C4. The backoff policy built with initial interval 100ms, coefficient 2.0 and 5
  attempts (the maximal interval left at its default, 30s), run on the fake clock
  against the supplier that fails on its calls 1 to 4 and succeeds on call 5, returns
  the success after exactly the sleeps 100ms, 200ms, 400ms and 800ms, one between
  two consecutive attempts; the attempts start at 0, 100ms, 300ms, 700ms and
  1500ms. Five units of fuel are enough, and more change nothing.
\<close>

theorem exponential_progression:
  "Supply (Suc (Suc (Suc (Suc (Suc k))))) undef False Background fake_clock_Sleep (supplier 5)
     (BackOff (Build (WithMaxAttempts 5 (WithBackOffCoefficient f64_two
        (WithInitialInterval (100 * Millisecond) newBackOff))))) start =
   Returned (True, None)
     \<lparr>calls = 5, tryTimes = [0, 100000000, 300000000, 700000000, 1500000000],
      clock = 1500000000\<rparr>
     [Attempt False (Some AnError), Sleep (100 * Millisecond),
      Attempt False (Some AnError), Sleep (200 * Millisecond),
      Attempt False (Some AnError), Sleep (400 * Millisecond),
      Attempt False (Some AnError), Sleep (800 * Millisecond),
      Attempt True None]"
  unfolding backoff_100ms_x2_5
  by (simp add: Supply_def test_defs calcNextInterval_def unlimitedMaxInterval_def
      double_100ms double_200ms double_400ms double_800ms Let_def word_sless_alt
      Millisecond_def)

section \<open>Exhausting the attempts\<close>

text \<open>
  The attempt counter never wraps around: it is incremented only while it is below
  \<^verbatim>\<open>maxAttempts\<close>.
\<close>

lemma sint_succ_below: "i <s (m::64 word) \<Longrightarrow> sint (i + 1) = sint i + 1"
proof -
  assume "i <s m"
  then have lt: "sint i < sint m" by (simp add: word_sless_alt)
  have "sint m < 2 ^ 63" using sint_lt [of m] by simp
  moreover have "- (2 ^ 63) \<le> sint i" using sint_ge [of i] by simp
  ultimately have r: "- (2 ^ 63) \<le> sint i + 1" "sint i + 1 < 2 ^ 63" using lt by arith+
  have "sint (i + 1) = signed_take_bit 63 (sint i + 1)"
    by (simp add: sint_word_ariths)
  also have "\<dots> = sint i + 1"
    using r by (simp add: signed_take_bit_int_eq_self)
  finally show ?thesis .
qed

lemma attempts_append: "attempts (xs @ ys) = attempts xs @ attempts ys"
  by (induction xs rule: attempts.induct) simp_all


lemma Supply_loop_advance:
  assumes cnt: "if 0 <s getMaxAttempts p
                then 0 \<le> sint i \<and> sint i + int k \<le> sint (getMaxAttempts p) else i = 0"
  shows "failing_rounds k undef ctx slp supply p d w \<Longrightarrow>
         run_rounds k undef ctx slp supply p d w = (rs, w') \<Longrightarrow>
         Supply_loop (k + fuel) undef ctx slp supply p res err d i w log =
         Supply_loop fuel undef ctx slp supply p
           (if rs = [] then res else fst (last rs))
           (if rs = [] then err else fst (snd (last rs)))
           ((next_of undef p ^^ k) d)
           (if 0 <s getMaxAttempts p then i + of_nat k else i)
           w' (log @ log_rounds rs)"
  using cnt
proof (induction k arbitrary: res err d i w log rs)
  case 0
  then show ?case by simp
next
  case (Suc k)
  obtain w1 where c: "ctx w = (False, w1)"
    using Suc.prems(1) by (auto split: prod.splits)
  obtain r e w2 where s: "supply w1 = ((r, Some e), w2)"
    using Suc.prems(1) c by (auto split: prod.splits)
  let ?d = "calcNextInterval undef d (getMaxInterval p) (getBackOffCoefficient p)"
  let ?i = "if 0 <s getMaxAttempts p then i + 1 else i"
  obtain rs' where rs': "run_rounds k undef ctx slp supply p ?d (slp d w2) = (rs', w')"
    and rs: "rs = (r, Some e, d) # rs'"
    using Suc.prems(2) c s by (auto split: prod.splits)
  have fr: "failing_rounds k undef ctx slp supply p ?d (slp d w2)"
    using Suc.prems(1) c s by simp
  have cond: "i = 0 \<or> i <s getMaxAttempts p"
    using Suc.prems(3) by (auto simp: word_sless_alt split: if_splits)
  have cnt': "if 0 <s getMaxAttempts p
              then 0 \<le> sint ?i \<and> sint ?i + int k \<le> sint (getMaxAttempts p) else ?i = 0"
  proof (cases "0 <s getMaxAttempts p")
    case True
    then have "i <s getMaxAttempts p" using Suc.prems(3) by (simp add: word_sless_alt)
    then have "sint (i + 1) = sint i + 1" by (rule sint_succ_below)
    then show ?thesis using True Suc.prems(3) by simp
  next
    case False
    then show ?thesis using Suc.prems(3) by simp
  qed
  have step: "Supply_loop (Suc k + fuel) undef ctx slp supply p res err d i w log =
      Supply_loop (k + fuel) undef ctx slp supply p r (Some e) ?d ?i (slp d w2)
        (log @ [Attempt r (Some e), Sleep d])"
    using cond c s by (simp add: Let_def)
  have "Supply_loop (k + fuel) undef ctx slp supply p r (Some e) ?d ?i (slp d w2)
        (log @ [Attempt r (Some e), Sleep d]) =
      Supply_loop fuel undef ctx slp supply p
           (if rs' = [] then r else fst (last rs'))
           (if rs' = [] then Some e else fst (snd (last rs')))
           ((next_of undef p ^^ k) ?d)
           (if 0 <s getMaxAttempts p then ?i + of_nat k else ?i)
           w' ((log @ [Attempt r (Some e), Sleep d]) @ log_rounds rs')"
    using fr rs' cnt' by (rule Suc.IH)
  moreover have "(next_of undef p ^^ k) ?d = (next_of undef p ^^ Suc k) d"
    by (simp add: funpow_swap1 next_of_def)
  moreover have "(if 0 <s getMaxAttempts p then ?i + of_nat k else ?i) =
                 (if 0 <s getMaxAttempts p then i + of_nat (Suc k) else i)"
    by simp
  ultimately show ?case using step rs by simp
qed

lemma length_run_rounds:
  "run_rounds k undef ctx slp supply p d w = (rs, w') \<Longrightarrow> length rs = k"
  by (induction k arbitrary: d w rs) (auto split: prod.splits)

lemma sleeps_run_rounds:
  "run_rounds k undef ctx slp supply p d w = (rs, w') \<Longrightarrow>
   map (\<lambda>x. snd (snd x)) rs = map (\<lambda>j. (next_of undef p ^^ j) d) [0..<k]"
proof (induction k arbitrary: d w rs)
  case 0
  then show ?case by simp
next
  case (Suc k)
  obtain w1 dn where c: "ctx w = (dn, w1)" by (cases "ctx w")
  obtain r e w2 where s: "supply w1 = ((r, e), w2)" by (metis surj_pair)
  let ?d = "calcNextInterval undef d (getMaxInterval p) (getBackOffCoefficient p)"
  obtain rs' where rs': "run_rounds k undef ctx slp supply p ?d (slp d w2) = (rs', w')"
    and rs: "rs = (r, e, d) # rs'"
    using Suc.prems c s by (auto split: prod.splits)
  have "map (\<lambda>x. snd (snd x)) rs' = map (\<lambda>j. (next_of undef p ^^ j) ?d) [0..<k]"
    using rs' by (rule Suc.IH)
  also have "\<dots> = map (\<lambda>j. (next_of undef p ^^ Suc j) d) [0..<k]"
    by (simp add: funpow_swap1 next_of_def)
  finally have "map (\<lambda>x. snd (snd x)) rs = d # map (\<lambda>j. (next_of undef p ^^ Suc j) d) [0..<k]"
    using rs by simp
  also have "\<dots> = map (\<lambda>j. (next_of undef p ^^ j) d) [0..<Suc k]"
    by (simp add: upt_rec [of 0 "Suc k"] map_Suc_upt [symmetric] del: upt_Suc)
  finally show ?case .
qed

lemma attempts_log_rounds: "attempts (log_rounds rs) = map (\<lambda>(r, e, d). (r, e)) rs"
  by (induction rs rule: log_rounds.induct) auto

lemma sleeps_log_rounds: "sleeps (log_rounds rs) = map (\<lambda>x. snd (snd x)) rs"
  by (induction rs rule: log_rounds.induct) auto

lemma log_rounds_Nil_iff [simp]: "log_rounds rs = [] \<longleftrightarrow> rs = []"
  by (cases rs) auto

lemma last_log_rounds: "rs \<noteq> [] \<Longrightarrow> last (log_rounds rs) = Sleep (snd (snd (last rs)))"
  by (induction rs rule: log_rounds.induct) auto

lemma always_failing_rounds:
  assumes "\<forall>w. snd (fst (supply w)) = Some E" and "\<forall>w. \<not> fst (ctx w)"
  shows "failing_rounds k undef ctx slp supply p d w"
proof (induction k arbitrary: d w)
  case 0
  then show ?case by simp
next
  case (Suc k d w)
  obtain w1 where c: "ctx w = (False, w1)" using assms(2) by (metis eq_fst_iff)
  obtain r w2 where s: "supply w1 = ((r, Some E), w2)" using assms(1)
    by (metis eq_fst_iff eq_snd_iff)
  show ?case using c s Suc.IH by simp
qed

lemma errors_run_rounds:
  assumes "\<forall>w. snd (fst (supply w)) = Some E"
  shows "run_rounds k undef ctx slp supply p d w = (rs, w') \<Longrightarrow> \<forall>x\<in>set rs. fst (snd x) = Some E"
proof (induction k arbitrary: d w rs)
  case 0
  then show ?case by simp
next
  case (Suc k)
  obtain w1 dn where c: "ctx w = (dn, w1)" by (cases "ctx w")
  obtain r w2 where s: "supply w1 = ((r, Some E), w2)" using assms
    by (metis eq_fst_iff eq_snd_iff)
  let ?d = "calcNextInterval undef d (getMaxInterval p) (getBackOffCoefficient p)"
  obtain rs' where rs': "run_rounds k undef ctx slp supply p ?d (slp d w2) = (rs', w')"
    and rs: "rs = (r, Some E, d) # rs'"
    using Suc.prems c s by (auto split: prod.splits)
  show ?case using Suc.IH [OF rs'] rs by simp
qed

lemma word_of_bound: "0 <s (m::64 word) \<Longrightarrow> word_of_nat (nat (sint m)) = m"
  by (simp add: word_sless_alt)

lemma exhausted_Supply:
  assumes pos: "0 <s getMaxAttempts p"
    and fails: "\<forall>w. snd (fst (supply w)) = Some E"
    and nocancel: "\<forall>w. \<not> fst (ctx w)"
    and fuel: "nat (sint (getMaxAttempts p)) < fuel"
    and run: "run_rounds (nat (sint (getMaxAttempts p))) undef ctx slp supply p
                (getInitialInterval p) w = (rs, w')"
  shows "Supply fuel undef zero ctx slp supply p w =
           Returned (fst (last rs), Some (OpError E)) w' (log_rounds rs)"
    and "rs \<noteq> []"
proof -
  let ?n = "nat (sint (getMaxAttempts p))"
  have npos: "0 < sint (getMaxAttempts p)" using pos by (simp add: word_sless_alt)
  obtain f where f: "fuel = ?n + Suc f" using fuel by (metis less_iff_Suc_add add_Suc_right)
  have len: "length rs = ?n" using run by (rule length_run_rounds)
  then show ne: "rs \<noteq> []" using npos by auto
  have lastE: "fst (snd (last rs)) = Some E"
    using errors_run_rounds [OF fails run] ne by simp
  have fr: "failing_rounds ?n undef ctx slp supply p (getInitialInterval p) w"
    using fails nocancel by (rule always_failing_rounds)
  have cnt: "if 0 <s getMaxAttempts p
             then 0 \<le> sint (0::int64) \<and> sint (0::int64) + int ?n \<le> sint (getMaxAttempts p)
             else (0::int64) = 0"
    using npos by simp
  have adv: "Supply_loop (?n + Suc f) undef ctx slp supply p zero None (getInitialInterval p) 0 w [] =
      Supply_loop (Suc f) undef ctx slp supply p
           (if rs = [] then zero else fst (last rs))
           (if rs = [] then None else fst (snd (last rs)))
           ((next_of undef p ^^ ?n) (getInitialInterval p))
           (if 0 <s getMaxAttempts p then 0 + of_nat ?n else 0)
           w' ([] @ log_rounds rs)"
    using cnt fr run by (rule Supply_loop_advance)
  have i: "(if 0 <s getMaxAttempts p then (0::int64) + of_nat ?n else 0) = getMaxAttempts p"
    using pos word_of_bound [OF pos] by simp
  have stop: "getMaxAttempts p \<noteq> 0" "\<not> getMaxAttempts p <s getMaxAttempts p"
    using npos by (auto simp: word_sless_alt)
  show "Supply fuel undef zero ctx slp supply p w =
           Returned (fst (last rs), Some (OpError E)) w' (log_rounds rs)"
    unfolding Supply_def f adv i using ne lastE stop by simp
qed

lemma run_rounds_count_calls:
  "run_rounds k undef ctx slp supply p d w = (rs, w') \<Longrightarrow>
   run_rounds k undef (beside_counter ctx) (sleep_beside_counter slp) (count_calls supply) p d
     (c, w) = (rs, (c + k, w'))"
proof (induction k arbitrary: d w rs c)
  case 0
  then show ?case by simp
next
  case (Suc k)
  obtain w1 dn where c: "ctx w = (dn, w1)" by (cases "ctx w")
  obtain r e w2 where s: "supply w1 = ((r, e), w2)" by (metis surj_pair)
  let ?d = "calcNextInterval undef d (getMaxInterval p) (getBackOffCoefficient p)"
  obtain rs' where rs': "run_rounds k undef ctx slp supply p ?d (slp d w2) = (rs', w')"
    and rs: "rs = (r, e, d) # rs'"
    using Suc.prems c s by (auto split: prod.splits)
  show ?case
    using Suc.IH [OF rs', of "Suc c"] c s rs
    by (simp add: beside_counter_def sleep_beside_counter_def count_calls_def)
qed

lemma run_rounds_count_sleeps:
  "run_rounds k undef ctx slp supply p d w = (rs, w') \<Longrightarrow>
   run_rounds k undef (beside_counter ctx) (count_sleeps slp) (beside_counter supply) p d
     (c, w) = (rs, (c + k, w'))"
proof (induction k arbitrary: d w rs c)
  case 0
  then show ?case by simp
next
  case (Suc k)
  obtain w1 dn where c: "ctx w = (dn, w1)" by (cases "ctx w")
  obtain r e w2 where s: "supply w1 = ((r, e), w2)" by (metis surj_pair)
  let ?d = "calcNextInterval undef d (getMaxInterval p) (getBackOffCoefficient p)"
  obtain rs' where rs': "run_rounds k undef ctx slp supply p ?d (slp d w2) = (rs', w')"
    and rs: "rs = (r, e, d) # rs'"
    using Suc.prems c s by (auto split: prod.splits)
  show ?case
    using Suc.IH [OF rs', of "Suc c"] c s rs
    by (simp add: beside_counter_def count_sleeps_def)
qed

lemma counted_hyps:
  "\<forall>w. snd (fst (supply w)) = Some E \<Longrightarrow> \<forall>w. snd (fst (count_calls supply w)) = Some E"
  "\<forall>w. snd (fst (supply w)) = Some E \<Longrightarrow> \<forall>w. snd (fst (beside_counter supply w)) = Some E"
  "\<forall>w. \<not> fst (ctx w) \<Longrightarrow> \<forall>w. \<not> fst (beside_counter ctx w)"
  by (auto simp: count_calls_def beside_counter_def split: prod.splits)
     (metis fst_conv snd_conv)+

lemma three_times_100ms_eq:
  "three_times_100ms = FixedDelay \<lparr>interval = 100000000, fd_maxAttempts = 3\<rparr>"
  by (simp add: three_times_100ms_def builder_defs const_defs word_sle_eq word_sless_alt)

lemma three_times_100ms_rounds:
  "run_rounds (Suc (Suc (Suc 0))) amd64 Background fake_clock_Sleep failing_supplier
     three_times_100ms 100000000 start =
   ([(False, Some AnError, 100000000), (False, Some AnError, 100000000),
     (False, Some AnError, 100000000)],
    \<lparr>calls = 3, tryTimes = [0, 100000000, 200000000], clock = 300000000\<rparr>)"
  unfolding three_times_100ms_eq
  by (simp add: test_defs calcNextInterval_def const_defs)

text \<open>
  C1. When \<^verbatim>\<open>maxAttempts\<close> is a bound \<open>n \<ge> 1\<close>, the operation fails with the
  error \<open>E\<close> on every call and the context is never done, \<^verbatim>\<open>Supply\<close> (given more
  than \<open>n\<close> units of fuel) invokes the operation exactly \<open>n\<close> times and then returns
  the value of the last call and the error \<open>E\<close> itself: an \<open>OpError\<close>, not a
  \<open>DeadlineExceededError\<close>. The world it leaves is the world after \<open>n\<close> rounds, its
  log holds the \<open>n\<close> failed attempts, and a counter put on the operation has advanced
  by exactly \<open>n\<close> when it returns.
\<close>

theorem Supply_exhausts_attempts:
  assumes "0 <s getMaxAttempts p"
    and "\<forall>w. snd (fst (supply w)) = Some E"
    and "\<forall>w. \<not> fst (ctx w)"
    and "nat (sint (getMaxAttempts p)) < fuel"
    and "run_rounds (nat (sint (getMaxAttempts p))) undef ctx slp supply p
           (getInitialInterval p) w = (rs, w')"
  shows "Supply fuel undef zero ctx slp supply p w =
           Returned (fst (last rs), Some (OpError E)) w' (log_rounds rs) \<and>
         length rs = nat (sint (getMaxAttempts p)) \<and>
         attempts (log_rounds rs) = map (\<lambda>(r, e, d). (r, Some E)) rs \<and>
         Supply fuel undef zero (beside_counter ctx) (sleep_beside_counter slp)
             (count_calls supply) p (c, w) =
           Returned (fst (last rs), Some (OpError E))
             (c + nat (sint (getMaxAttempts p)), w') (log_rounds rs)"
proof -
  have "attempts (log_rounds rs) = map (\<lambda>(r, e, d). (r, Some E)) rs"
    using errors_run_rounds [OF assms(2) assms(5)]
    by (auto simp: attempts_log_rounds)
  moreover have "Supply fuel undef zero (beside_counter ctx) (sleep_beside_counter slp)
             (count_calls supply) p (c, w) =
           Returned (fst (last rs), Some (OpError E))
             (c + nat (sint (getMaxAttempts p)), w') (log_rounds rs)"
    using assms(1) counted_hyps(1) [OF assms(2)] counted_hyps(3) [OF assms(3)] assms(4)
      run_rounds_count_calls [OF assms(5)]
    by (rule exhausted_Supply(1))
  ultimately show ?thesis
    using exhausted_Supply(1) [OF assms] length_run_rounds [OF assms(5)] by simp
qed

theorem Supply_exhausts_attempts_witness:
  "Supply 4 amd64 False Background fake_clock_Sleep failing_supplier three_times_100ms start =
     Returned (False, Some (OpError AnError))
       \<lparr>calls = 3, tryTimes = [0, 100000000, 200000000], clock = 300000000\<rparr>
       [Attempt False (Some AnError), Sleep 100000000,
        Attempt False (Some AnError), Sleep 100000000,
        Attempt False (Some AnError), Sleep 100000000]"
proof -
  have n: "nat (sint (getMaxAttempts three_times_100ms)) = Suc (Suc (Suc 0))"
    by (simp add: three_times_100ms_eq)
  have h1: "0 <s getMaxAttempts three_times_100ms"
    by (simp add: three_times_100ms_eq word_sless_alt)
  have h2: "\<forall>w. snd (fst (failing_supplier w)) = Some AnError"
    by (simp add: failing_supplier_def)
  have h3: "\<forall>w. \<not> fst (Background w)"
    by (simp add: Background_def)
  have h4: "nat (sint (getMaxAttempts three_times_100ms)) < 4"
    by (simp add: three_times_100ms_eq)
  have h5: "run_rounds (nat (sint (getMaxAttempts three_times_100ms))) amd64 Background
      fake_clock_Sleep failing_supplier three_times_100ms
      (getInitialInterval three_times_100ms) start =
   ([(False, Some AnError, 100000000), (False, Some AnError, 100000000),
     (False, Some AnError, 100000000)],
    \<lparr>calls = 3, tryTimes = [0, 100000000, 200000000], clock = 300000000\<rparr>)"
    unfolding n using three_times_100ms_rounds by (simp add: three_times_100ms_eq)
  show ?thesis
    using Supply_exhausts_attempts [OF h1 h2 h3 h4 h5, of False 0] by simp
qed

lemma doubling_rounds:
  "run_rounds (Suc (Suc (Suc 0))) amd64 Background fake_clock_Sleep failing_supplier
     (BackOff \<lparr>initialInterval = 100000000, maxInterval = 30000000000, maxAttempts = 3,
        backOffCoefficient = f64_two\<rparr>) 100000000 start =
   ([(False, Some AnError, 100000000), (False, Some AnError, 200000000),
     (False, Some AnError, 400000000)],
    \<lparr>calls = 3, tryTimes = [0, 100000000, 300000000], clock = 700000000\<rparr>)"
  by (simp add: test_defs calcNextInterval_def const_defs double_100ms double_200ms
      double_400ms Let_def word_sless_alt)

text \<open>
  C9. When \<^verbatim>\<open>maxAttempts\<close> is a bound \<open>n \<ge> 1\<close>, the operation fails on every
  call and the context is never done, \<^verbatim>\<open>Supply\<close> calls the sleeper exactly \<open>n\<close>
  times, once after every failed attempt and so once more after the last one, before
  it returns the exhausted-attempts result: the world it leaves is the world after
  \<open>n\<close> rounds, each with its sleep; the intervals slept are the initial interval and
  then \<^verbatim>\<open>calcNextInterval\<close> of the one before; the last event of the log is a sleep;
  and a counter put on the sleeper has advanced by exactly \<open>n\<close>.
\<close>

theorem Supply_sleeps_after_every_failure:
  assumes "0 <s getMaxAttempts p"
    and "\<forall>w. snd (fst (supply w)) = Some E"
    and "\<forall>w. \<not> fst (ctx w)"
    and "nat (sint (getMaxAttempts p)) < fuel"
    and "run_rounds (nat (sint (getMaxAttempts p))) undef ctx slp supply p
           (getInitialInterval p) w = (rs, w')"
  shows "Supply fuel undef zero ctx slp supply p w =
           Returned (fst (last rs), Some (OpError E)) w' (log_rounds rs) \<and>
         sleeps (log_rounds rs) =
           map (\<lambda>j. (next_of undef p ^^ j) (getInitialInterval p))
             [0..<nat (sint (getMaxAttempts p))] \<and>
         last (log_rounds rs) = Sleep (snd (snd (last rs))) \<and>
         Supply fuel undef zero (beside_counter ctx) (count_sleeps slp)
             (beside_counter supply) p (c, w) =
           Returned (fst (last rs), Some (OpError E))
             (c + nat (sint (getMaxAttempts p)), w') (log_rounds rs)"
proof -
  have ne: "rs \<noteq> []" using assms by (rule exhausted_Supply(2))
  have "sleeps (log_rounds rs) =
           map (\<lambda>j. (next_of undef p ^^ j) (getInitialInterval p))
             [0..<nat (sint (getMaxAttempts p))]"
    using sleeps_run_rounds [OF assms(5)] by (simp add: sleeps_log_rounds)
  moreover have "Supply fuel undef zero (beside_counter ctx) (count_sleeps slp)
             (beside_counter supply) p (c, w) =
           Returned (fst (last rs), Some (OpError E))
             (c + nat (sint (getMaxAttempts p)), w') (log_rounds rs)"
    using assms(1) counted_hyps(2) [OF assms(2)] counted_hyps(3) [OF assms(3)] assms(4)
      run_rounds_count_sleeps [OF assms(5)]
    by (rule exhausted_Supply(1))
  ultimately show ?thesis
    using exhausted_Supply(1) [OF assms] last_log_rounds [OF ne] by simp
qed

theorem Supply_sleeps_after_every_failure_witness:
  "Supply 4 amd64 False Background fake_clock_Sleep failing_supplier
     (BackOff \<lparr>initialInterval = 100000000, maxInterval = 30000000000, maxAttempts = 3,
        backOffCoefficient = f64_two\<rparr>) start =
     Returned (False, Some (OpError AnError))
       \<lparr>calls = 3, tryTimes = [0, 100000000, 300000000], clock = 700000000\<rparr>
       [Attempt False (Some AnError), Sleep 100000000,
        Attempt False (Some AnError), Sleep 200000000,
        Attempt False (Some AnError), Sleep 400000000]"
proof -
  let ?p = "BackOff \<lparr>initialInterval = 100000000, maxInterval = 30000000000, maxAttempts = 3,
        backOffCoefficient = f64_two\<rparr>"
  have n: "nat (sint (getMaxAttempts ?p)) = Suc (Suc (Suc 0))"
    by simp
  have h1: "0 <s getMaxAttempts ?p"
    by (simp add: word_sless_alt)
  have h2: "\<forall>w. snd (fst (failing_supplier w)) = Some AnError"
    by (simp add: failing_supplier_def)
  have h3: "\<forall>w. \<not> fst (Background w)"
    by (simp add: Background_def)
  have h4: "nat (sint (getMaxAttempts ?p)) < 4"
    by simp
  have h5: "run_rounds (nat (sint (getMaxAttempts ?p))) amd64 Background
      fake_clock_Sleep failing_supplier ?p (getInitialInterval ?p) start =
   ([(False, Some AnError, 100000000), (False, Some AnError, 200000000),
     (False, Some AnError, 400000000)],
    \<lparr>calls = 3, tryTimes = [0, 100000000, 300000000], clock = 700000000\<rparr>)"
    unfolding n using doubling_rounds by simp
  show ?thesis
    using Supply_sleeps_after_every_failure [OF h1 h2 h3 h4 h5, of False 0] by simp
qed

section \<open>A policy that is not built\<close>

lemma forever_loop:
  assumes zero: "getMaxAttempts p = 0"
    and fails: "\<forall>w. snd (fst (supply w)) \<noteq> None"
    and nocancel: "\<forall>w. \<not> fst (ctx w)"
  shows "\<exists>w' log'. Supply_loop fuel undef ctx slp supply p res err nextInt 0 w log = OutOfFuel w' log' \<and>
           length (attempts log') = length (attempts log) + fuel"
proof (induction fuel arbitrary: res err nextInt w log)
  case 0
  then show ?case by simp
next
  case (Suc fuel)
  obtain w1 where c: "ctx w = (False, w1)" using nocancel by (metis eq_fst_iff)
  obtain r' e' w2 where s: "supply w1 = ((r', Some e'), w2)" using fails
    by (metis eq_fst_iff eq_snd_iff not_Some_eq)
  let ?next = "calcNextInterval undef nextInt (getMaxInterval p) (getBackOffCoefficient p)"
  let ?log = "log @ [Attempt r' (Some e'), Sleep nextInt]"
  have step: "Supply_loop (Suc fuel) undef ctx slp supply p res err nextInt 0 w log =
        Supply_loop fuel undef ctx slp supply p r' (Some e') ?next 0 (slp nextInt w2) ?log"
    using zero c s by (simp add: Let_def)
  obtain w' log' where "Supply_loop fuel undef ctx slp supply p r' (Some e') ?next 0 (slp nextInt w2) ?log
      = OutOfFuel w' log'" and "length (attempts log') = length (attempts ?log) + fuel"
    using Suc.IH by blast
  then show ?case using step by (simp add: attempts_append)
qed

text \<open>
  C10. When the policy's \<^verbatim>\<open>getMaxAttempts\<close> returns 0 (the zero value of the policy
  struct, written without the builder), the operation always fails and the context
  is never done, \<^verbatim>\<open>Supply\<close> never returns: whatever the fuel, it runs out, after
  as many calls of the operation as there was fuel. The counter stays 0, since it
  is incremented only when \<^verbatim>\<open>maxAttempts\<close> is positive.
\<close>

theorem Supply_zero_maxAttempts_diverges:
  assumes "getMaxAttempts p = 0"
    and "\<forall>w. snd (fst (supply w)) \<noteq> None"
    and "\<forall>w. \<not> fst (ctx w)"
  shows "returned (Supply fuel undef zero ctx slp supply p w) = None \<and>
         length (attempts (log_of (Supply fuel undef zero ctx slp supply p w))) = fuel"
  using forever_loop [OF assms, of fuel undef slp zero None "getInitialInterval p" w "[]"]
  by (auto simp: Supply_def)

theorem Supply_zero_maxAttempts_diverges_witness:
  "returned (Supply 7 amd64 False Background fake_clock_Sleep failing_supplier (BackOff zero_BackOffPolicy) start) = None \<and>
   length (attempts (log_of (Supply 7 amd64 False Background fake_clock_Sleep failing_supplier (BackOff zero_BackOffPolicy) start))) = 7"
  using Supply_zero_maxAttempts_diverges [of "BackOff zero_BackOffPolicy" failing_supplier Background 7
     amd64 False fake_clock_Sleep start]
  by (simp add: zero_BackOffPolicy_def test_defs)

section \<open>Cancellation\<close>

lemma sint_of_nat_below: "int k < sint (m::64 word) \<Longrightarrow> sint (word_of_nat k :: 64 word) = int k"
proof -
  assume "int k < sint m"
  moreover have "sint m < 2 ^ 63" using sint_lt [of m] by simp
  ultimately have "int k < 2 ^ 63" by arith
  then show ?thesis
    by (simp add: signed_of_nat signed_take_bit_int_eq_self)
qed

lemma cancelled_Supply:
  assumes "failing_rounds k undef ctx slp supply p (getInitialInterval p) w"
    and "run_rounds k undef ctx slp supply p (getInitialInterval p) w = (rs, w')"
    and "k = 0 \<or> getMaxAttempts p \<le>s 0 \<or> int k < sint (getMaxAttempts p)"
    and "ctx w' = (True, w'')"
  shows "Supply (k + Suc fuel) undef zero ctx slp supply p w =
           Returned (if rs = [] then zero else fst (last rs),
                     Some (DeadlineExceededError
                             (if rs = [] then zero else fst (last rs))
                             (if rs = [] then None else fst (snd (last rs)))))
             w'' (log_rounds rs)"
proof -
  let ?i = "if 0 <s getMaxAttempts p then (0::int64) + of_nat k else 0"
  have cnt: "if 0 <s getMaxAttempts p
             then 0 \<le> sint (0::int64) \<and> sint (0::int64) + int k \<le> sint (getMaxAttempts p)
             else (0::int64) = 0"
    using assms(3) by (auto simp: word_sless_alt word_sle_eq)
  have adv: "Supply_loop (k + Suc fuel) undef ctx slp supply p zero None (getInitialInterval p) 0 w [] =
      Supply_loop (Suc fuel) undef ctx slp supply p
           (if rs = [] then zero else fst (last rs))
           (if rs = [] then None else fst (snd (last rs)))
           ((next_of undef p ^^ k) (getInitialInterval p)) ?i
           w' ([] @ log_rounds rs)"
    using cnt assms(1) assms(2) by (rule Supply_loop_advance)
  have cond: "?i = 0 \<or> ?i <s getMaxAttempts p"
  proof (cases "0 <s getMaxAttempts p")
    case False
    then show ?thesis by simp
  next
    case True
    then have "k = 0 \<or> int k < sint (getMaxAttempts p)"
      using assms(3) by (auto simp: word_sless_alt word_sle_eq)
    then show ?thesis
    proof
      assume "k = 0"
      then show ?thesis by simp
    next
      assume lt: "int k < sint (getMaxAttempts p)"
      then have "sint (word_of_nat k :: int64) = int k" by (rule sint_of_nat_below)
      then show ?thesis using True lt by (simp add: word_sless_alt)
    qed
  qed
  show ?thesis
    unfolding Supply_def adv using cond assms(4) by simp
qed

lemma failing_rounds_count_calls:
  "failing_rounds k undef ctx slp supply p d w \<Longrightarrow>
   failing_rounds k undef (beside_counter ctx) (sleep_beside_counter slp) (count_calls supply)
     p d (c, w)"
proof (induction k arbitrary: d w c)
  case 0
  then show ?case by simp
next
  case (Suc k d w c)
  obtain w1 where cx: "ctx w = (False, w1)"
    using Suc.prems by (auto split: prod.splits)
  obtain r e w2 where s: "supply w1 = ((r, Some e), w2)"
    using Suc.prems cx by (auto split: prod.splits)
  have "failing_rounds k undef ctx slp supply p
          (calcNextInterval undef d (getMaxInterval p) (getBackOffCoefficient p)) (slp d w2)"
    using Suc.prems cx s by simp
  then show ?case
    using Suc.IH [of _ "slp d w2" "Suc c"] cx s
    by (simp add: beside_counter_def sleep_beside_counter_def count_calls_def)
qed

lemma until_deadline_rounds:
  "run_rounds (Suc (Suc 0)) amd64 (WithDeadline 150000000) fake_clock_Sleep failing_supplier
     (FixedDelay \<lparr>interval = 100000000, fd_maxAttempts = - 1\<rparr>) 100000000 start =
   ([(False, Some AnError, 100000000), (False, Some AnError, 100000000)],
    \<lparr>calls = 2, tryTimes = [0, 100000000], clock = 200000000\<rparr>)"
  by (simp add: test_defs calcNextInterval_def const_defs)

text \<open>
  C2. The context is polled at the top of every iteration, before the operation is
  called. In any run of \<^verbatim>\<open>Supply\<close> whose first \<open>k\<close> rounds fail with the context not
  done (\<open>k\<close> may be 0) and whose next poll, at the top of an iteration the attempt
  bound still allows, finds the context done, \<^verbatim>\<open>Supply\<close> returns at that poll: the
  world is the one left by that poll, the log holds the \<open>k\<close> rounds and nothing more,
  a counter put on the operation shows \<open>k\<close> calls, and the result is the last value
  with a \<open>DeadlineExceededError\<close> carrying the value and the error of the last call.
  When \<open>k = 0\<close>, these are the zero value and \<^verbatim>\<open>nil\<close>.
\<close>

theorem Supply_cancelled_at_top:
  assumes "failing_rounds k undef ctx slp supply p (getInitialInterval p) w"
    and "run_rounds k undef ctx slp supply p (getInitialInterval p) w = (rs, w')"
    and "k = 0 \<or> getMaxAttempts p \<le>s 0 \<or> int k < sint (getMaxAttempts p)"
    and "ctx w' = (True, w'')"
  shows "Supply (k + Suc fuel) undef zero ctx slp supply p w =
           Returned (if rs = [] then zero else fst (last rs),
                     Some (DeadlineExceededError
                             (if rs = [] then zero else fst (last rs))
                             (if rs = [] then None else fst (snd (last rs)))))
             w'' (log_rounds rs) \<and>
         Supply (k + Suc fuel) undef zero (beside_counter ctx) (sleep_beside_counter slp)
             (count_calls supply) p (c, w) =
           Returned (if rs = [] then zero else fst (last rs),
                     Some (DeadlineExceededError
                             (if rs = [] then zero else fst (last rs))
                             (if rs = [] then None else fst (snd (last rs)))))
             (c + k, w'') (log_rounds rs)"
proof -
  have "beside_counter ctx (c + k, w') = (True, (c + k, w''))"
    using assms(4) by (simp add: beside_counter_def)
  then show ?thesis
    using cancelled_Supply [OF assms]
      cancelled_Supply [OF failing_rounds_count_calls [OF assms(1)]
        run_rounds_count_calls [OF assms(2)] assms(3)]
    by simp
qed

theorem Supply_cancelled_at_top_witness:
  "Supply (Suc (Suc 0) + Suc 0) amd64 False (WithDeadline 150000000) fake_clock_Sleep failing_supplier
     (FixedDelay \<lparr>interval = 100000000, fd_maxAttempts = - 1\<rparr>) start =
     Returned (False, Some (DeadlineExceededError False (Some AnError)))
       \<lparr>calls = 2, tryTimes = [0, 100000000], clock = 200000000\<rparr>
       [Attempt False (Some AnError), Sleep 100000000,
        Attempt False (Some AnError), Sleep 100000000] \<and>
   Supply (0 + Suc 0) amd64 False (WithDeadline 0) fake_clock_Sleep failing_supplier
     three_times_100ms start =
     Returned (False, Some (DeadlineExceededError False None)) start []"
proof -
  let ?p = "FixedDelay \<lparr>interval = 100000000, fd_maxAttempts = - 1\<rparr>"
  let ?w = "\<lparr>calls = 2, tryTimes = [0, 100000000], clock = 200000000\<rparr>"
  have a1: "failing_rounds (Suc (Suc 0)) amd64 (WithDeadline 150000000) fake_clock_Sleep
      failing_supplier ?p (getInitialInterval ?p) start"
    by (simp add: test_defs calcNextInterval_def const_defs)
  have a2: "run_rounds (Suc (Suc 0)) amd64 (WithDeadline 150000000) fake_clock_Sleep
      failing_supplier ?p (getInitialInterval ?p) start =
      ([(False, Some AnError, 100000000), (False, Some AnError, 100000000)], ?w)"
    using until_deadline_rounds by simp
  have a3: "Suc (Suc 0) = 0 \<or> getMaxAttempts ?p \<le>s 0 \<or> int (Suc (Suc 0)) < sint (getMaxAttempts ?p)"
    by (simp add: word_sle_eq)
  have a4: "WithDeadline 150000000 ?w = (True, ?w)"
    by (simp add: WithDeadline_def)
  have b1: "failing_rounds 0 amd64 (WithDeadline 0) fake_clock_Sleep
      failing_supplier three_times_100ms (getInitialInterval three_times_100ms) start"
    by simp
  have b2: "run_rounds 0 amd64 (WithDeadline 0) fake_clock_Sleep
      failing_supplier three_times_100ms (getInitialInterval three_times_100ms) start = ([], start)"
    by simp
  have b3: "(0::nat) = 0 \<or> getMaxAttempts three_times_100ms \<le>s 0 \<or>
      int 0 < sint (getMaxAttempts three_times_100ms)"
    by simp
  have b4: "WithDeadline 0 start = (True, start)"
    by (simp add: WithDeadline_def start_def)
  show ?thesis
    using Supply_cancelled_at_top [OF a1 a2 a3 a4, of 0 False 0]
      Supply_cancelled_at_top [OF b1 b2 b3 b4, of 0 False 0]
    by simp
qed

section \<open>The cap on the interval\<close>






section \<open>Normalization by the builders\<close>

lemma pos_of_not_le0: "\<not> x \<le>s 0 \<Longrightarrow> 0 <s (x::64 word)"
  by (simp add: word_sle_eq word_sless_alt)

lemma pos_of_not_less0:
  assumes "x \<noteq> 0" and "\<not> x <s 0"
  shows "0 <s (x::64 word)"
proof -
  have "sint x \<noteq> 0" using assms(1) by (simp add: signed_eq_0_iff)
  then show ?thesis using assms(2) by (simp add: word_sless_alt)
qed

lemma f64_zero_facts: "\<not> f64_isNaN (f64_zero False)" "f64_key (f64_zero False) = 0"
  by (simp_all add: f64_defs)

lemma f64_two_pos: "f64_less (f64_zero False) f64_two"
  by (simp add: f64_defs)

lemma f64_one_pos: "f64_less (f64_zero False) f64_one"
  by (simp add: f64_defs)

lemma f64_pos_of_not_le0:
  "\<not> f64_isNaN c \<Longrightarrow> \<not> f64_le c (f64_zero False) \<Longrightarrow> f64_less (f64_zero False) c"
  by (simp add: f64_le_def f64_less_def f64_zero_facts)

lemma f64_pos_kept: "f64_less (f64_zero False) c \<Longrightarrow> \<not> f64_le c (f64_zero False)"
  by (simp add: f64_le_def f64_less_def f64_zero_facts)

lemma BackOff_fields:
  "initialInterval (Build b) =
     (if b_initialInterval b \<le>s 0 then Second else b_initialInterval b)"
  "maxInterval (Build b) =
     (if b_maxInterval b = 0 then 30 * Second
      else if b_maxInterval b <s 0 then unlimitedMaxInterval else b_maxInterval b)"
  "maxAttempts (Build b) =
     (if b_maxAttempts b = 0 then 3
      else if b_maxAttempts b <s 0 then undefinedMaxAttempts else b_maxAttempts b)"
  "backOffCoefficient (Build b) =
     (if f64_le (b_backOffCoefficient b) (f64_zero False) then f64_two
      else b_backOffCoefficient b)"
  by (auto simp: builder_defs const_defs word_sless_alt)

lemma FixedDelay_fields:
  "interval (fd_Build fb) = (if b_interval fb \<le>s 0 then Second else b_interval fb)"
  "fd_maxAttempts (fd_Build fb) =
     (if b_fd_maxAttempts fb = 0 then 3
      else if b_fd_maxAttempts fb <s 0 then undefinedMaxAttempts else b_fd_maxAttempts fb)"
  "getBackOffCoefficient (FixedDelay (fd_Build fb)) = f64_one"
  "getMaxInterval (FixedDelay (fd_Build fb)) = interval (fd_Build fb)"
  by (auto simp: builder_defs const_defs word_sless_alt)

lemma Second_pos: "0 <s Second" "0 <s 30 * Second" "0 <s (3::int64)"
  by (simp_all add: const_defs word_sless_alt)

lemma BackOff_positive:
  "0 <s initialInterval (Build b)"
  "0 <s maxInterval (Build b) \<or> maxInterval (Build b) = unlimitedMaxInterval"
  "0 <s maxAttempts (Build b) \<or> maxAttempts (Build b) = undefinedMaxAttempts"
  unfolding BackOff_fields
  by (auto simp: Second_pos pos_of_not_le0 pos_of_not_less0)

lemma BackOff_coefficient_positive:
  "\<not> f64_isNaN (b_backOffCoefficient b) \<Longrightarrow>
     f64_less (f64_zero False) (backOffCoefficient (Build b))"
  unfolding BackOff_fields
  by (auto simp: f64_two_pos f64_pos_of_not_le0)

lemma FixedDelay_positive:
  "0 <s interval (fd_Build fb)"
  "0 <s fd_maxAttempts (fd_Build fb) \<or> fd_maxAttempts (fd_Build fb) = undefinedMaxAttempts"
  "f64_less (f64_zero False) (getBackOffCoefficient (FixedDelay (fd_Build fb)))"
  unfolding FixedDelay_fields
  by (auto simp: Second_pos pos_of_not_le0 pos_of_not_less0 f64_one_pos)

text \<open>
  C5, as amended. \<^verbatim>\<open>Build\<close> is a total function, and the fields of the policy it
  returns follow the normalization mapping: \<^verbatim>\<open>maxAttempts\<close> 0 gives 3 and a negative
  one the indefinite sentinel; \<^verbatim>\<open>maxInterval\<close> 0 gives 30s and a negative one the
  unlimited sentinel; an \<^verbatim>\<open>initialInterval\<close> \<open>\<le> 0\<close> gives 1s; a coefficient \<open>\<le> 0\<close>
  gives 2.0; a fixed-delay policy has coefficient 1.0, its maximal interval is its
  interval, and an interval \<open>\<le> 0\<close> gives 1s; every other input is kept. So the
  intervals and attempts of a built policy are positive or a sentinel, and its
  coefficient is positive whenever the coefficient given to the builder is not a NaN.
\<close>

theorem Build_normalizes:
  "initialInterval (Build b) =
     (if b_initialInterval b \<le>s 0 then Second else b_initialInterval b) \<and>
   maxInterval (Build b) =
     (if b_maxInterval b = 0 then 30 * Second
      else if b_maxInterval b <s 0 then unlimitedMaxInterval else b_maxInterval b) \<and>
   maxAttempts (Build b) =
     (if b_maxAttempts b = 0 then 3
      else if b_maxAttempts b <s 0 then undefinedMaxAttempts else b_maxAttempts b) \<and>
   backOffCoefficient (Build b) =
     (if f64_le (b_backOffCoefficient b) (f64_zero False) then f64_two
      else b_backOffCoefficient b) \<and>
   interval (fd_Build fb) = (if b_interval fb \<le>s 0 then Second else b_interval fb) \<and>
   fd_maxAttempts (fd_Build fb) =
     (if b_fd_maxAttempts fb = 0 then 3
      else if b_fd_maxAttempts fb <s 0 then undefinedMaxAttempts else b_fd_maxAttempts fb) \<and>
   getBackOffCoefficient (FixedDelay (fd_Build fb)) = f64_one \<and>
   getMaxInterval (FixedDelay (fd_Build fb)) = interval (fd_Build fb) \<and>
   0 <s initialInterval (Build b) \<and>
   (0 <s maxInterval (Build b) \<or> maxInterval (Build b) = unlimitedMaxInterval) \<and>
   (0 <s maxAttempts (Build b) \<or> maxAttempts (Build b) = undefinedMaxAttempts) \<and>
   (\<not> f64_isNaN (b_backOffCoefficient b) \<longrightarrow>
      f64_less (f64_zero False) (backOffCoefficient (Build b))) \<and>
   0 <s interval (fd_Build fb) \<and>
   (0 <s fd_maxAttempts (fd_Build fb) \<or> fd_maxAttempts (fd_Build fb) = undefinedMaxAttempts) \<and>
   f64_less (f64_zero False) (getBackOffCoefficient (FixedDelay (fd_Build fb)))"
  using BackOff_fields [of b] FixedDelay_fields [of fb] BackOff_positive [of b]
    BackOff_coefficient_positive [of b] FixedDelay_positive [of fb]
  by blast

theorem Build_normalizes_witness:
  "\<not> f64_isNaN (b_backOffCoefficient capped_100ms) \<and>
   f64_less (f64_zero False) (backOffCoefficient (Build capped_100ms)) \<and>
   backOffCoefficient (Build capped_100ms) = f64_two \<and>
   maxAttempts (Build capped_100ms) = 3 \<and>
   interval (fd_Build newFixedDelay) = Second"
  using Build_normalizes [of capped_100ms newFixedDelay]
  by (simp add: capped_100ms_def builder_defs const_defs f64_defs word_sle_eq word_sless_alt)

text \<open>
  C5 as stated fails for a NaN: \<^verbatim>\<open>NaN <= 0\<close> is false, so \<^verbatim>\<open>Build\<close> keeps a NaN
  coefficient, and the coefficient of the built policy is then not positive.
\<close>

theorem Build_NaN_coefficient_counterexample:
  "backOffCoefficient (Build NaN_builder) = f64_NaN \<and>
   \<not> f64_less (f64_zero False) (backOffCoefficient (Build NaN_builder))"
  by (simp add: NaN_builder_def builder_defs f64_defs)

section \<open>Run\<close>

text \<open>
  C7. \<^verbatim>\<open>Run\<close> returns exactly the error component of \<^verbatim>\<open>Supply\<close>, called with the
  same context, sleeper and policy and with the operation lifted to return the
  placeholder \<^verbatim>\<open>nil\<close> beside its error: it makes the same calls, returns when
  \<^verbatim>\<open>Supply\<close> does, and drops the value. In particular it returns \<^verbatim>\<open>nil\<close> when
  \<^verbatim>\<open>Supply\<close> succeeds.
\<close>

theorem Run_is_error_of_Supply:
  "Run fuel undef ctx slp run p w =
     (case Supply fuel undef any_nil ctx slp
             (\<lambda>w. case run w of (err, w') \<Rightarrow> ((any_nil, err), w')) p w of
        Returned (v, err) w' log \<Rightarrow> Returned err w' log
      | OutOfFuel w' log \<Rightarrow> OutOfFuel w' log) \<and>
   (Supply fuel undef any_nil ctx slp
        (\<lambda>w. case run w of (err, w') \<Rightarrow> ((any_nil, err), w')) p w = Returned (v, None) w' log \<longrightarrow>
      Run fuel undef ctx slp run p w = Returned None w' log)"
  by (simp add: Run_def runFuncToSupplyFunc_def returnErrOnly_def
      split: outcome.splits prod.splits)

lemma Supply_runner_2:
  "Supply (Suc (Suc 0)) amd64 any_nil Background fake_clock_Sleep
      (\<lambda>w. case runner 2 w of (err, w') \<Rightarrow> ((any_nil, err), w')) three_times_100ms start =
    Returned (any_nil, None) \<lparr>calls = 2, tryTimes = [0, 100000000], clock = 100000000\<rparr>
      [Attempt any_nil (Some AnError), Sleep 100000000, Attempt any_nil None]"
  unfolding three_times_100ms_eq
  by (simp add: Supply_def test_defs calcNextInterval_def const_defs Let_def word_sless_alt)

theorem Run_is_error_of_Supply_witness:
  "Run (Suc (Suc 0)) amd64 Background fake_clock_Sleep (runner 2) three_times_100ms start =
     Returned None \<lparr>calls = 2, tryTimes = [0, 100000000], clock = 100000000\<rparr>
      [Attempt any_nil (Some AnError), Sleep 100000000, Attempt any_nil None]"
  using Run_is_error_of_Supply [of "Suc (Suc 0)" amd64 Background fake_clock_Sleep "runner 2"
      three_times_100ms start any_nil
      "\<lparr>calls = 2, tryTimes = [0, 100000000], clock = 100000000\<rparr>"
      "[Attempt any_nil (Some AnError), Sleep 100000000, Attempt any_nil None]"]
    Supply_runner_2
  by simp

section \<open>Builders are values\<close>







end
